theory Spec2Isabelle
  imports Complex_Main
begin

section \<open>Python values shared by the components\<close>

text \<open>
  Samples, gains, times and durations are Python and NumPy floating-point numbers in the
  source. They are modelled as real numbers: rounding, overflow, infinities and NaN are
  outside the model, and every equation below is an equation of exact arithmetic.

  Exceptions are values of the type \<open>error\<close>; a computation that may raise returns
  \<open>error + 'a\<close>, with \<open>Inl\<close> for the exception. Only subclasses of Python's
  \<open>Exception\<close> are listed: these are what the \<open>except Exception\<close> handlers of
  the two merge components catch. \<open>LibraryError\<close> stands for whatever an external library
  (librosa, soundfile, moviepy) raises on its own account.
\<close>

datatype error =
    ValueError
  | TypeError
  | ZeroDivisionError
  | FileNotFoundError
  | LibraryError string

type_synonym buffer = "real list"

text \<open>\<open>int(x)\<close> on a float truncates towards zero.\<close>

definition py_int :: "real \<Rightarrow> int" where
  "py_int x = (if 0 \<le> x then \<lfloor>x\<rfloor> else \<lceil>x\<rceil>)"

text \<open>
  A slice bound of Python, clamped into \<open>0..n\<close>: a negative bound counts from the end.
\<close>

definition slice_index :: "nat \<Rightarrow> int \<Rightarrow> nat" where
  "slice_index n i = (if i < 0 then nat (max 0 (int n + i)) else min n (nat i))"

text \<open>\<open>y[start:stop]\<close> with step 1; \<open>None\<close> is an omitted bound.\<close>

definition py_slice :: "'a list \<Rightarrow> int option \<Rightarrow> int option \<Rightarrow> 'a list" where
  "py_slice y start stop =
     (let n = length y;
          s = (case start of None \<Rightarrow> 0 | Some i \<Rightarrow> slice_index n i);
          e = (case stop of None \<Rightarrow> n | Some i \<Rightarrow> slice_index n i)
      in take (e - s) (drop s y))"

section \<open>The NumPy operations the audio component uses\<close>

text \<open>\<open>np.clip(a, lo, hi)\<close>, element by element.\<close>

definition np_clip :: "buffer \<Rightarrow> real \<Rightarrow> real \<Rightarrow> buffer" where
  "np_clip a lo hi = map (\<lambda>s. min hi (max lo s)) a"

text \<open>\<open>a * c\<close> for an array and a scalar.\<close>

definition np_scale :: "buffer \<Rightarrow> real \<Rightarrow> buffer" where
  "np_scale a c = map (\<lambda>s. s * c) a"

text \<open>
  \<open>np.linspace(start, stop, num)\<close>: \<open>num\<close> evenly spaced values with both ends
  included; a negative \<open>num\<close> raises \<open>ValueError\<close>.
\<close>

definition np_linspace :: "real \<Rightarrow> real \<Rightarrow> int \<Rightarrow> error + buffer" where
  "np_linspace start stop num =
     (if num < 0 then Inl ValueError
      else if num = 1 then Inr [start]
      else Inr (map (\<lambda>i. start + real i * (stop - start) / real (nat num - 1)) [0..<nat num]))"

text \<open>
  \<open>a * b\<close> for two one-dimensional arrays. NumPy broadcasts: the lengths must agree
  unless one of them is 1; any other pair of lengths raises \<open>ValueError\<close>
  ("operands could not be broadcast together").
\<close>

definition np_mul :: "buffer \<Rightarrow> buffer \<Rightarrow> error + buffer" where
  "np_mul a b =
     (if length a = length b then Inr (map (\<lambda>(x, y). x * y) (zip a b))
      else if length a = 1 then Inr (map (\<lambda>y. hd a * y) b)
      else if length b = 1 then Inr (map (\<lambda>x. x * hd b) a)
      else Inl ValueError)"

text \<open>
  \<open>y[start:stop] = v\<close> on a one-dimensional array: the value must have the length of
  the slice or length 1 (it is then repeated); otherwise NumPy raises \<open>ValueError\<close>
  ("could not broadcast input array"). The array keeps its length.
\<close>

definition np_set_slice :: "buffer \<Rightarrow> int option \<Rightarrow> int option \<Rightarrow> buffer \<Rightarrow> error + buffer" where
  "np_set_slice y start stop v =
     (let n = length y;
          s = (case start of None \<Rightarrow> 0 | Some i \<Rightarrow> slice_index n i);
          e = (case stop of None \<Rightarrow> n | Some i \<Rightarrow> slice_index n i);
          m = e - s
      in if length v = m then Inr (take s y @ v @ drop (s + m) y)
         else if length v = 1 then Inr (take s y @ replicate m (hd v) @ drop (s + m) y)
         else Inl ValueError)"

text \<open>
  \<open>np.mean\<close>. On an empty array NumPy returns NaN (with a warning); the only caller,
  \<open>normalize\<close>, then multiplies an empty buffer by the resulting factor, so the value
  chosen here for the empty case never reaches a result.
\<close>

definition np_mean :: "buffer \<Rightarrow> real" where
  "np_mean a = (if a = [] then 0 else sum_list a / real (length a))"

section \<open>AudioEnhancer (src/audiosetting.py)\<close>

text \<open>
  Every operation takes \<open>Union[str, Tuple]\<close>: the path of an audio file or a pair
  \<open>(y, sr)\<close> of samples and sample rate, and returns the same union: the pair when
  \<open>save\<close> is false, the path of the file written when it is true.
\<close>

datatype audio = Path string | Tuple buffer int

text \<open>
  What the class takes from outside: \<open>librosa.load\<close>, \<open>soundfile.write\<close>
  (\<open>None\<close> is success), \<open>librosa.effects.time_stretch\<close>, the \<open>os.path\<close>
  functions behind \<open>_out\<close>, how an f-string prints a number, and the attribute names
  every Python object inherits with a truthy value (\<open>__class__\<close>, \<open>__doc__\<close>,
  \<open>__eq__\<close>, ...).
\<close>

record audio_env =
  librosa_load :: "string \<Rightarrow> error + buffer \<times> int"
  sf_write :: "string \<Rightarrow> buffer \<Rightarrow> int \<Rightarrow> error option"
  time_stretch :: "buffer \<Rightarrow> real \<Rightarrow> error + buffer"
  output_dir :: string
  path_stem :: "string \<Rightarrow> string"
  path_join :: "string \<Rightarrow> string \<Rightarrow> string"
  str_real :: "real \<Rightarrow> string"
  str_int :: "int \<Rightarrow> string"
  inherited_attr :: "string \<Rightarrow> bool"

text \<open>\<open>_out\<close>: \<open>path_stem\<close> is \<open>os.path.splitext(os.path.basename(p))[0]\<close>.\<close>

definition out_path :: "audio_env \<Rightarrow> string \<Rightarrow> string \<Rightarrow> string" where
  "out_path env input_path suffix =
     path_join env (output_dir env) (path_stem env input_path @ ''_'' @ suffix @ ''.wav'')"

text \<open>\<open>_ensure_array\<close>: a pair is returned as it is, a path is loaded.\<close>

definition ensure_array :: "audio_env \<Rightarrow> audio \<Rightarrow> error + buffer \<times> int" where
  "ensure_array env inp =
     (case inp of Tuple y sr \<Rightarrow> Inr (y, sr) | Path p \<Rightarrow> librosa_load env p)"

text \<open>
  The tail every operation shares: with \<open>save\<close> the result is written to
  \<open>_out(input_path if isinstance(input_path, str) else "audio", suffix)\<close> and the path
  is returned; otherwise the pair is returned.
\<close>

definition finish :: "audio_env \<Rightarrow> audio \<Rightarrow> string \<Rightarrow> buffer \<Rightarrow> int \<Rightarrow> bool \<Rightarrow> error + audio" where
  "finish env inp suffix y sr save =
     (if save then
        (let out = out_path env (case inp of Path p \<Rightarrow> p | Tuple _ _ \<Rightarrow> ''audio'') suffix
         in case sf_write env out y sr of Some e \<Rightarrow> Inl e | None \<Rightarrow> Inr (Path out))
      else Inr (Tuple y sr))"

definition increase_volume :: "audio_env \<Rightarrow> audio \<Rightarrow> real \<Rightarrow> bool \<Rightarrow> error + audio" where
  "increase_volume env inp db_gain save =
     (case ensure_array env inp of
        Inl e \<Rightarrow> Inl e
      | Inr (y, sr) \<Rightarrow>
          (let factor = 10 powr (db_gain / 20);
               y_out = np_clip (np_scale y factor) (- 1) 1
           in finish env inp (''volup'' @ str_real env db_gain) y_out sr save))"

definition decrease_volume :: "audio_env \<Rightarrow> audio \<Rightarrow> real \<Rightarrow> bool \<Rightarrow> error + audio" where
  "decrease_volume env inp db_reduce save =
     (case ensure_array env inp of
        Inl e \<Rightarrow> Inl e
      | Inr (y, sr) \<Rightarrow>
          (let factor = 10 powr (db_reduce / 20);
               y_out = np_clip (np_scale y factor) (- 1) 1
           in finish env inp (''voldown'' @ str_real env \<bar>db_reduce\<bar>) y_out sr save))"

text \<open>
  \<open>fade_in\<close>: \<open>n = int(sr * duration)\<close>, a ramp of \<open>n\<close> values, and
  \<open>y[:n] = y[:n] * fade_curve\<close>. The slice is clamped by Python, the ramp is not.
\<close>

definition fade_in :: "audio_env \<Rightarrow> audio \<Rightarrow> real \<Rightarrow> bool \<Rightarrow> error + audio" where
  "fade_in env inp duration save =
     (case ensure_array env inp of
        Inl e \<Rightarrow> Inl e
      | Inr (y, sr) \<Rightarrow>
          (let n = py_int (real_of_int sr * duration) in
           case np_linspace 0 1 n of
             Inl e \<Rightarrow> Inl e
           | Inr fade_curve \<Rightarrow>
               (case np_mul (py_slice y None (Some n)) fade_curve of
                  Inl e \<Rightarrow> Inl e
                | Inr faded \<Rightarrow>
                    (case np_set_slice y None (Some n) faded of
                       Inl e \<Rightarrow> Inl e
                     | Inr y' \<Rightarrow> finish env inp (''fadein'' @ str_real env duration) y' sr save))))"

text \<open>\<open>fade_out\<close>: the same on \<open>y[-n:]\<close> with a ramp from 1 to 0.\<close>

definition fade_out :: "audio_env \<Rightarrow> audio \<Rightarrow> real \<Rightarrow> bool \<Rightarrow> error + audio" where
  "fade_out env inp duration save =
     (case ensure_array env inp of
        Inl e \<Rightarrow> Inl e
      | Inr (y, sr) \<Rightarrow>
          (let n = py_int (real_of_int sr * duration) in
           case np_linspace 1 0 n of
             Inl e \<Rightarrow> Inl e
           | Inr fade_curve \<Rightarrow>
               (case np_mul (py_slice y (Some (- n)) None) fade_curve of
                  Inl e \<Rightarrow> Inl e
                | Inr faded \<Rightarrow>
                    (case np_set_slice y (Some (- n)) None faded of
                       Inl e \<Rightarrow> Inl e
                     | Inr y' \<Rightarrow> finish env inp (''fadeout'' @ str_real env duration) y' sr save))))"

definition speed_change :: "audio_env \<Rightarrow> audio \<Rightarrow> real \<Rightarrow> bool \<Rightarrow> error + audio" where
  "speed_change env inp factor save =
     (case ensure_array env inp of
        Inl e \<Rightarrow> Inl e
      | Inr (y, sr) \<Rightarrow>
          (case time_stretch env y factor of
             Inl e \<Rightarrow> Inl e
           | Inr y_fast \<Rightarrow> finish env inp (''speed'' @ str_real env factor) y_fast sr save))"

text \<open>\<open>reverse\<close>: \<open>y[::-1]\<close>.\<close>

definition reverse :: "audio_env \<Rightarrow> audio \<Rightarrow> bool \<Rightarrow> error + audio" where
  "reverse env inp save =
     (case ensure_array env inp of
        Inl e \<Rightarrow> Inl e
      | Inr (y, sr) \<Rightarrow> finish env inp ''reversed'' (rev y) sr save)"

text \<open>
  \<open>cut\<close>: \<open>end_idx = int(end * sr) if end else len(y)\<close>. The test is Python's
  truthiness: \<open>None\<close> and \<open>0.0\<close> are both false. The file name uses
  \<open>end or 'end'\<close>, the same test.
\<close>

definition cut_audio :: "audio_env \<Rightarrow> audio \<Rightarrow> real \<Rightarrow> real option \<Rightarrow> bool \<Rightarrow> error + audio" where
  "cut_audio env inp start end save =
     (case ensure_array env inp of
        Inl e \<Rightarrow> Inl e
      | Inr (y, sr) \<Rightarrow>
          (let truthy_end = (case end of None \<Rightarrow> None | Some t \<Rightarrow> if t = 0 then None else Some t);
               start_idx = py_int (start * real_of_int sr);
               end_idx = (case truthy_end of
                            Some t \<Rightarrow> py_int (t * real_of_int sr)
                          | None \<Rightarrow> int (length y));
               y_cut = py_slice y (Some start_idx) (Some end_idx)
           in finish env inp
                (''cut'' @ str_real env start @ ''-'' @
                   (case truthy_end of Some t \<Rightarrow> str_real env t | None \<Rightarrow> ''end''))
                y_cut sr save))"

text \<open>
  \<open>normalize\<close>: the level is \<open>20 * log10(rms + 1e-6)\<close>, the gain the difference to
  the target, applied as a factor and clipped.
\<close>

definition rms :: "buffer \<Rightarrow> real" where
  "rms y = sqrt (np_mean (map (\<lambda>s. s ^ 2) y))"

definition current_db :: "buffer \<Rightarrow> real" where
  "current_db y = 20 * log 10 (rms y + 1 / 1000000)"

definition normalize_audio :: "audio_env \<Rightarrow> audio \<Rightarrow> real \<Rightarrow> bool \<Rightarrow> error + audio" where
  "normalize_audio env inp target_db save =
     (case ensure_array env inp of
        Inl e \<Rightarrow> Inl e
      | Inr (y, sr) \<Rightarrow>
          (let gain = target_db - current_db y;
               factor = 10 powr (gain / 20);
               y_norm = np_clip (np_scale y factor) (- 1) 1
           in finish env inp (''norm'' @ str_int env (py_int target_db) @ ''dB'') y_norm sr save))"

subsection \<open>The pipeline: \<open>apply_multiple\<close>\<close>

text \<open>
  An action is a pair \<open>(name, val)\<close>. The value is \<open>None\<close>, a number, or (for a
  nested \<open>apply_multiple\<close>) a list of actions.
\<close>

datatype arg = Num real | Actions "(string \<times> arg option) list"

text \<open>
  \<open>getattr(self, name, None)\<close> looks the name up among all attributes of the
  instance. The eight operations and \<open>apply_multiple\<close> itself are found; so are the
  private helpers, \<open>__init__\<close>, the string \<open>output_dir\<close> and what every object
  inherits, none of which can be called as \<open>fn(temp, save=False)\<close>. Any other name
  gives \<open>None\<close>.
\<close>

datatype attr =
    A_increase_volume | A_decrease_volume | A_fade_in | A_fade_out | A_speed_change
  | A_reverse | A_cut | A_normalize | A_apply_multiple | A_other

definition getattr_ae :: "audio_env \<Rightarrow> string \<Rightarrow> attr option" where
  "getattr_ae env name =
     (if name = ''increase_volume'' then Some A_increase_volume
      else if name = ''decrease_volume'' then Some A_decrease_volume
      else if name = ''fade_in'' then Some A_fade_in
      else if name = ''fade_out'' then Some A_fade_out
      else if name = ''speed_change'' then Some A_speed_change
      else if name = ''reverse'' then Some A_reverse
      else if name = ''cut'' then Some A_cut
      else if name = ''normalize'' then Some A_normalize
      else if name = ''apply_multiple'' then Some A_apply_multiple
      else if name \<in> set [''__init__'', ''_out'', ''_load'', ''_save'', ''_ensure_array'',
                           ''output_dir'']
              \<or> inherited_attr env name then Some A_other
      else None)"

text \<open>
  A list where a number is expected: the operation loads its input first and then fails
  in its arithmetic.
\<close>

definition bad_arg :: "audio_env \<Rightarrow> audio \<Rightarrow> error + audio" where
  "bad_arg env temp = (case ensure_array env temp of Inl e \<Rightarrow> Inl e | Inr _ \<Rightarrow> Inl TypeError)"

text \<open>
  \<open>fn(temp, save=False)\<close> when \<open>val is None\<close> (the operation's default applies) and
  \<open>fn(temp, val, save=False)\<close> otherwise (the value is the second positional
  parameter). \<open>reverse\<close> has \<open>save\<close> in second place, so a value there is a
  \<open>TypeError\<close> ("multiple values for argument"); so is every call of an attribute that
  is not an operation. The nested \<open>apply_multiple\<close> is part of \<open>apply_loop\<close> below.
\<close>

fun call_op :: "audio_env \<Rightarrow> attr \<Rightarrow> audio \<Rightarrow> arg option \<Rightarrow> error + audio" where
  "call_op env A_increase_volume temp None = increase_volume env temp 3 False"
| "call_op env A_increase_volume temp (Some (Num v)) = increase_volume env temp v False"
| "call_op env A_decrease_volume temp None = decrease_volume env temp (- 6) False"
| "call_op env A_decrease_volume temp (Some (Num v)) = decrease_volume env temp v False"
| "call_op env A_fade_in temp None = fade_in env temp 2 False"
| "call_op env A_fade_in temp (Some (Num v)) = fade_in env temp v False"
| "call_op env A_fade_out temp None = fade_out env temp 2 False"
| "call_op env A_fade_out temp (Some (Num v)) = fade_out env temp v False"
| "call_op env A_speed_change temp None = speed_change env temp (5 / 4) False"
| "call_op env A_speed_change temp (Some (Num v)) = speed_change env temp v False"
| "call_op env A_reverse temp None = reverse env temp False"
| "call_op env A_reverse temp (Some v) = Inl TypeError"
| "call_op env A_cut temp None = cut_audio env temp 0 None False"
| "call_op env A_cut temp (Some (Num v)) = cut_audio env temp v None False"
| "call_op env A_normalize temp None = normalize_audio env temp (- 1) False"
| "call_op env A_normalize temp (Some (Num v)) = normalize_audio env temp v False"
| "call_op env A_apply_multiple temp v = Inl TypeError"
| "call_op env A_other temp v = Inl TypeError"
| "call_op env fn temp (Some (Actions as)) = bad_arg env temp"

text \<open>\<open>if not res\<close>: a pair is always true, a path is true unless it is empty.\<close>

definition truthy :: "audio \<Rightarrow> bool" where
  "truthy a = (case a of Path p \<Rightarrow> p \<noteq> [] | Tuple y sr \<Rightarrow> True)"

text \<open>
  The loop of \<open>apply_multiple\<close> over the remaining actions, with the current
  \<open>temp\<close>. The result is \<open>Inr None\<close> for \<open>return None\<close>, \<open>Inr (Some a)\<close> for a
  returned value, and \<open>Inl e\<close> for an exception: the \<open>try\<close> has only a
  \<open>finally\<close>, so exceptions of the operations leave \<open>apply_multiple\<close>.
\<close>

function apply_loop ::
  "audio_env \<Rightarrow> audio \<Rightarrow> audio \<Rightarrow> (string \<times> arg option) list \<Rightarrow> bool \<Rightarrow> error + audio option" where
  "apply_loop env input_path temp [] save =
     (if save then
        (case ensure_array env temp of
           Inl e \<Rightarrow> Inl e
         | Inr (y, sr) \<Rightarrow>
             (case finish env input_path ''pipeline'' y sr True of
                Inl e \<Rightarrow> Inl e
              | Inr out \<Rightarrow> Inr (Some out)))
      else Inr (Some temp))"
| "apply_loop env input_path temp ((name, val) # rest) save =
     (case getattr_ae env name of
        None \<Rightarrow> Inr None
      | Some fn \<Rightarrow>
          (case (case (fn, val) of
                   (A_apply_multiple, Some (Actions as)) \<Rightarrow> apply_loop env temp temp as False
                 | _ \<Rightarrow> map_sum id Some (call_op env fn temp val)) of
             Inl e \<Rightarrow> Inl e
           | Inr None \<Rightarrow> Inr None
           | Inr (Some res) \<Rightarrow>
               if truthy res then apply_loop env input_path res rest save else Inr None))"
  by pat_completeness auto
termination
  by (relation "measure (\<lambda>(env, ip, temp, acts, save).
        size_list (size_prod (\<lambda>_. 0) (size_option size)) acts)") auto

definition apply_multiple ::
  "audio_env \<Rightarrow> audio \<Rightarrow> (string \<times> arg option) list \<Rightarrow> bool \<Rightarrow> error + audio option" where
  "apply_multiple env input_path actions save = apply_loop env input_path input_path actions save"

text \<open>What one action of the loop calls: \<open>res = fn(temp, ...)\<close>.\<close>

definition call_attr :: "audio_env \<Rightarrow> attr \<Rightarrow> audio \<Rightarrow> arg option \<Rightarrow> error + audio option" where
  "call_attr env fn temp val =
     (case (fn, val) of
        (A_apply_multiple, Some (Actions as)) \<Rightarrow> apply_multiple env temp as False
      | _ \<Rightarrow> map_sum id Some (call_op env fn temp val))"

section \<open>Clips of the video library (moviepy)\<close>

text \<open>
  An audio clip is described by how it was built: a source clip (a decoded file or a
  sample array, with the duration the library gave it), a concatenation, or a sub-clip.
  The duration follows the library: \<open>concatenate_audioclips\<close> places the clips one
  after the other, so the durations add up, and \<open>subclip(t_start, t_end)\<close> sets the
  duration to \<open>t_end - t_start\<close>.
\<close>

datatype aclip =
    ASource string real
  | AConcat "aclip list"
  | ASub aclip real real

fun a_duration :: "aclip \<Rightarrow> real" where
  "a_duration (ASource name d) = d"
| "a_duration (AConcat cs) = sum_list (map a_duration cs)"
| "a_duration (ASub c t_start t_end) = t_end - t_start"

text \<open>
  \<open>concatenate_audioclips\<close>: an empty list has no clip to take the channel count
  from, and the library raises \<open>ValueError\<close>.
\<close>

definition concatenate_audioclips :: "aclip list \<Rightarrow> error + aclip" where
  "concatenate_audioclips cs = (if cs = [] then Inl ValueError else Inr (AConcat cs))"

text \<open>
  \<open>Clip.subclip\<close>: a negative time counts from the end of the clip, and a start
  after the end of the clip raises \<open>ValueError\<close>.
\<close>

definition subclip :: "aclip \<Rightarrow> real \<Rightarrow> real \<Rightarrow> error + aclip" where
  "subclip c t_start t_end =
     (let d = a_duration c;
          s = (if t_start < 0 then d + t_start else t_start)
      in if s > d then Inl ValueError
         else Inr (ASub c s (if t_end < 0 then d + t_end else t_end)))"

text \<open>A video clip: where its frames come from, its duration, its audio track.\<close>

record vclip =
  v_source :: string
  v_duration :: real
  v_audio :: "aclip option"

text \<open>\<open>set_audio\<close> returns a copy of the clip with the audio track replaced.\<close>

definition set_audio :: "vclip \<Rightarrow> aclip \<Rightarrow> vclip" where
  "set_audio v a = v\<lparr>v_audio := Some a\<rparr>"

text \<open>
  What the two merge components call in the library and the operating system. Each
  call that can raise returns \<open>error + _\<close>, or \<open>error option\<close> when it returns
  nothing (\<open>None\<close> is success).
\<close>

record video_lib =
  path_exists :: "string \<Rightarrow> bool"
  os_path_join :: "string \<Rightarrow> string \<Rightarrow> string"
  VideoFileClip :: "string \<Rightarrow> error + vclip"
  AudioFileClip :: "string \<Rightarrow> error + aclip"
  AudioArrayClip :: "buffer \<Rightarrow> int \<Rightarrow> error + aclip"
  resize :: "vclip \<Rightarrow> nat \<times> nat \<Rightarrow> error + vclip"
  set_fps :: "vclip \<Rightarrow> real \<Rightarrow> error + vclip"
  crossfadein :: "vclip \<Rightarrow> real \<Rightarrow> error + vclip"
  crossfadeout :: "vclip \<Rightarrow> real \<Rightarrow> error + vclip"
  concatenate_videoclips :: "vclip list \<Rightarrow> error + vclip"
  write_videofile :: "vclip \<Rightarrow> string \<Rightarrow> real option \<Rightarrow> string option \<Rightarrow> error option"
  close_video :: "vclip \<Rightarrow> error option"

text \<open>A merge returns the path of the file written, or the clip in memory.\<close>

datatype merge_result = Out_Path string | Out_Clip vclip

datatype video_input = VI_Path string | VI_Clip vclip

datatype audio_input = AI_Path string | AI_Clip aclip | AI_Tuple buffer int

text \<open>
  \<open>try: ... except Exception: return None\<close>: the value of the body, or \<open>None\<close>
  when it raised.
\<close>

definition except_none :: "error + 'a option \<Rightarrow> 'a option" where
  "except_none body = (case body of Inl e \<Rightarrow> None | Inr r \<Rightarrow> r)"

section \<open>VideoAudioMerger (src/videomerger.py)\<close>

text \<open>
  The block "Sync Durations" of \<open>merge\<close> (lines 45 to 56). \<open>v_dur // a_dur\<close> is
  Python's floor division on floats, which raises \<open>ZeroDivisionError\<close> for a zero
  divisor; \<open>[audio] * loop_count\<close> is the empty list for a count below 1.
\<close>

definition sync_durations :: "real \<Rightarrow> aclip \<Rightarrow> error + aclip" where
  "sync_durations v_dur audio =
     (let a_dur = a_duration audio in
      if a_dur < v_dur then
        (if a_dur = 0 then Inl ZeroDivisionError
         else
           (let loop_count = \<lfloor>v_dur / a_dur\<rfloor> + 1;
                audio_clips = replicate (nat loop_count) audio
            in case concatenate_audioclips audio_clips of
                 Inl e \<Rightarrow> Inl e
               | Inr looped \<Rightarrow> subclip looped 0 v_dur))
      else if a_dur > v_dur then subclip audio 0 v_dur
      else Inr audio)"

text \<open>The loading of the two inputs (lines 24 to 40).\<close>

definition load_video :: "video_lib \<Rightarrow> video_input \<Rightarrow> error + vclip" where
  "load_video lib video_input =
     (case video_input of VI_Clip v \<Rightarrow> Inr v | VI_Path p \<Rightarrow> VideoFileClip lib p)"

definition load_audio :: "video_lib \<Rightarrow> audio_input \<Rightarrow> error + aclip" where
  "load_audio lib audio_input =
     (case audio_input of
        AI_Tuple y sr \<Rightarrow> AudioArrayClip lib y sr
      | AI_Clip a \<Rightarrow> Inr a
      | AI_Path p \<Rightarrow>
          if \<not> path_exists lib p then Inl FileNotFoundError else AudioFileClip lib p)"

text \<open>
  The body of the \<open>try\<close> of \<open>merge\<close>. An exception of \<open>audio.close()\<close> is
  swallowed by the inner \<open>try\<close>.
\<close>

definition VideoAudioMerger_try ::
  "video_lib \<Rightarrow> string \<Rightarrow> video_input \<Rightarrow> audio_input \<Rightarrow> string \<Rightarrow> bool \<Rightarrow> real option
     \<Rightarrow> error + merge_result option" where
  "VideoAudioMerger_try lib out_dir video_input audio_input output_name save fps =
     (case load_video lib video_input of
        Inl e \<Rightarrow> Inl e
      | Inr video \<Rightarrow>
     (case load_audio lib audio_input of
        Inl e \<Rightarrow> Inl e
      | Inr audio0 \<Rightarrow>
     (case sync_durations (v_duration video) audio0 of
        Inl e \<Rightarrow> Inl e
      | Inr audio \<Rightarrow>
          (let final_video = set_audio video audio;
               output_path = os_path_join lib out_dir output_name
           in if save then
                (case write_videofile lib final_video output_path fps None of
                   Some e \<Rightarrow> Inl e
                 | None \<Rightarrow>
                (case close_video lib video of
                   Some e \<Rightarrow> Inl e
                 | None \<Rightarrow>
                (case close_video lib final_video of
                   Some e \<Rightarrow> Inl e
                 | None \<Rightarrow> Inr (Some (Out_Path output_path)))))
              else Inr (Some (Out_Clip final_video))))))"

definition VideoAudioMerger_merge ::
  "video_lib \<Rightarrow> string \<Rightarrow> video_input \<Rightarrow> audio_input \<Rightarrow> string \<Rightarrow> bool \<Rightarrow> real option
     \<Rightarrow> merge_result option" where
  "VideoAudioMerger_merge lib out_dir video_input audio_input output_name save fps =
     except_none (VideoAudioMerger_try lib out_dir video_input audio_input output_name save fps)"

section \<open>VideoMerger (src/conectintro.py)\<close>

text \<open>\<open>_normalize\<close>: \<open>clip.resize(newsize=(1280, 720)).set_fps(30)\<close>.\<close>

definition normalize_clip :: "video_lib \<Rightarrow> vclip \<Rightarrow> error + vclip" where
  "normalize_clip lib clip =
     (case resize lib clip (1280, 720) of Inl e \<Rightarrow> Inl e | Inr c \<Rightarrow> set_fps lib c 30)"

text \<open>The two clips that are handed to \<open>concatenate_videoclips\<close> (lines 79 to 87).\<close>

definition merge_parts :: "video_lib \<Rightarrow> vclip \<Rightarrow> vclip \<Rightarrow> real \<Rightarrow> error + vclip list" where
  "merge_parts lib intro_clip main_clip crossfade =
     (if crossfade > 0 then
        (case crossfadeout lib intro_clip crossfade of
           Inl e \<Rightarrow> Inl e
         | Inr a \<Rightarrow>
             (case crossfadein lib main_clip crossfade of
                Inl e \<Rightarrow> Inl e
              | Inr b \<Rightarrow> Inr [a, b]))
      else Inr [intro_clip, main_clip])"

text \<open>
  The body of the \<open>try\<close> of \<open>merge\<close>. A missing file is reported and \<open>None\<close> is
  returned without an exception.
\<close>

definition VideoMerger_try ::
  "video_lib \<Rightarrow> string \<Rightarrow> video_input \<Rightarrow> video_input \<Rightarrow> real \<Rightarrow> bool
     \<Rightarrow> error + merge_result option" where
  "VideoMerger_try lib out_dir intro_path main_path crossfade save =
     (if (case intro_path of VI_Path p \<Rightarrow> \<not> path_exists lib p | VI_Clip _ \<Rightarrow> False) then Inr None
      else if (case main_path of VI_Path p \<Rightarrow> \<not> path_exists lib p | VI_Clip _ \<Rightarrow> False) then Inr None
      else
     (case load_video lib intro_path of
        Inl e \<Rightarrow> Inl e
      | Inr intro0 \<Rightarrow>
     (case load_video lib main_path of
        Inl e \<Rightarrow> Inl e
      | Inr main0 \<Rightarrow>
     (case normalize_clip lib intro0 of
        Inl e \<Rightarrow> Inl e
      | Inr intro_clip \<Rightarrow>
     (case normalize_clip lib main0 of
        Inl e \<Rightarrow> Inl e
      | Inr main_clip \<Rightarrow>
     (case merge_parts lib intro_clip main_clip crossfade of
        Inl e \<Rightarrow> Inl e
      | Inr parts \<Rightarrow>
     (case concatenate_videoclips lib parts of
        Inl e \<Rightarrow> Inl e
      | Inr merged_clip \<Rightarrow>
          (let output = os_path_join lib out_dir ''final_merged.mp4'' in
           if save then
             (case write_videofile lib merged_clip output None
                     (Some (os_path_join lib out_dir ''temp_audio.m4a'')) of
                Some e \<Rightarrow> Inl e
              | None \<Rightarrow>
             (case close_video lib intro_clip of
                Some e \<Rightarrow> Inl e
              | None \<Rightarrow>
             (case close_video lib main_clip of
                Some e \<Rightarrow> Inl e
              | None \<Rightarrow>
             (case close_video lib merged_clip of
                Some e \<Rightarrow> Inl e
              | None \<Rightarrow> Inr (Some (Out_Path output))))))
           else Inr (Some (Out_Clip merged_clip))))))))))"

definition VideoMerger_merge ::
  "video_lib \<Rightarrow> string \<Rightarrow> video_input \<Rightarrow> video_input \<Rightarrow> real \<Rightarrow> bool \<Rightarrow> merge_result option" where
  "VideoMerger_merge lib out_dir intro_path main_path crossfade save =
     except_none (VideoMerger_try lib out_dir intro_path main_path crossfade save)"

section \<open>Concrete environments\<close>

text \<open>
  An environment to run the operations in: no file can be loaded, every write succeeds,
  and the time stretch resamples by dropping or repeating nothing (it returns its input
  for the factor 1 and fails otherwise).
\<close>

definition demo_env :: audio_env where
  "demo_env = \<lparr>
     librosa_load = (\<lambda>p. Inl FileNotFoundError),
     sf_write = (\<lambda>p y sr. None),
     time_stretch = (\<lambda>y f. if f = 1 then Inr y else Inl (LibraryError ''time_stretch'')),
     output_dir = ''enhanced_audio'',
     path_stem = (\<lambda>p. p),
     path_join = (\<lambda>d f. d @ ''/'' @ f),
     str_real = (\<lambda>x. ''x''),
     str_int = (\<lambda>i. ''i''),
     inherited_attr = (\<lambda>name. name = ''__class__'' \<or> name = ''__doc__'')
   \<rparr>"

text \<open>
  A video library to run the merges in: the file \<open>video.mp4\<close> lasts one second and
  \<open>music.mp3\<close> half a second, nothing else can be opened; a sample array lasts
  \<open>len / fps\<close>; resizing, frame rate and fades keep the clip as it is; a
  concatenation adds the durations; writing succeeds except into the directory
  \<open>readonly\<close>.
\<close>

definition demo_lib :: video_lib where
  "demo_lib = \<lparr>
     path_exists = (\<lambda>p. p = ''video.mp4'' \<or> p = ''music.mp3'' \<or> p = ''broken.mp4''),
     os_path_join = (\<lambda>d f. d @ ''/'' @ f),
     VideoFileClip = (\<lambda>p. if p = ''video.mp4''
        then Inr \<lparr>v_source = p, v_duration = 1, v_audio = None\<rparr>
        else Inl (LibraryError ''cannot open video'')),
     AudioFileClip = (\<lambda>p. if p = ''music.mp3'' then Inr (ASource p (1 / 2))
        else Inl (LibraryError ''cannot open audio'')),
     AudioArrayClip = (\<lambda>y sr. if sr = 0 then Inl ZeroDivisionError
        else Inr (ASource ''array'' (real (length y) / real_of_int sr))),
     resize = (\<lambda>c size. Inr c),
     set_fps = (\<lambda>c fps. Inr c),
     crossfadein = (\<lambda>c d. Inr c),
     crossfadeout = (\<lambda>c d. Inr c),
     concatenate_videoclips = (\<lambda>cs. if cs = [] then Inl ValueError
        else Inr \<lparr>v_source = concat (map v_source cs),
                  v_duration = sum_list (map v_duration cs), v_audio = None\<rparr>),
     write_videofile = (\<lambda>c path fps tmp.
        if take 9 path = ''readonly/'' then Some (LibraryError ''cannot write'') else None),
     close_video = (\<lambda>c. None)
   \<rparr>"

section \<open>Properties\<close>

lemma ensure_array_Tuple: "ensure_array env (Tuple y sr) = Inr (y, sr)"
  by (simp add: ensure_array_def)

lemma finish_nosave: "finish env inp suffix y sr False = Inr (Tuple y sr)"
  by (simp add: finish_def)

text \<open>
  C9. Reversing twice gives the buffer back exactly: the reversal of \<open>(y, sr)\<close> is
  \<open>(rev y, sr)\<close>, and reversing that pair returns \<open>(y, sr)\<close>.
\<close>

theorem reverse_reverse:
  "reverse env (Tuple y sr) False = Inr (Tuple (rev y) sr) \<and>
   reverse env (Tuple (rev y) sr) False = Inr (Tuple y sr)"
  by (simp add: reverse_def ensure_array_Tuple finish_nosave)

end
